theory Spec2Isabelle
  imports Main "HOL-Library.Sublist"
begin

section \<open>Python strings\<close>

text \<open>
  A Python \<open>str\<close> is a sequence of Unicode code points. It is modelled as a list of
  natural numbers, one per code point, so that the predicates below can name every
  code point that \<open>str.strip\<close> and \<open>str.splitlines\<close> treat specially, also those
  beyond Latin-1. A literal of the source is written \<open>py ''...''\<close>.
\<close>

type_synonym pystr = "nat list"

definition py :: "string \<Rightarrow> pystr" where
  "py s = map of_char s"

text \<open>
  \<open>str.isspace\<close> for one code point, as CPython decides it: the ASCII table
  (\<open>0x09\<close>--\<open>0x0D\<close>, \<open>0x1C\<close>--\<open>0x1F\<close>, \<open>0x20\<close>) and the Unicode white space
  beyond it. \<open>str.strip()\<close> without argument removes these at both ends.
\<close>

definition isspace :: "nat \<Rightarrow> bool" where
  "isspace c \<longleftrightarrow>
     (9 \<le> c \<and> c \<le> 13) \<or> (28 \<le> c \<and> c \<le> 31) \<or> c = 32 \<or> c = 133 \<or> c = 160 \<or>
     c = 5760 \<or> (8192 \<le> c \<and> c \<le> 8202) \<or> c = 8232 \<or> c = 8233 \<or> c = 8239 \<or>
     c = 8287 \<or> c = 12288"

text \<open>
  The line boundaries of \<open>str.splitlines\<close>: \<open>\n\<close>, \<open>\v\<close>, \<open>\f\<close>, \<open>\r\<close>,
  \<open>0x1C\<close>--\<open>0x1E\<close>, \<open>0x85\<close>, \<open>0x2028\<close>, \<open>0x2029\<close>; the pair \<open>\r\n\<close> is one
  boundary.
\<close>

definition islinebreak :: "nat \<Rightarrow> bool" where
  "islinebreak c \<longleftrightarrow>
     (10 \<le> c \<and> c \<le> 13) \<or> (28 \<le> c \<and> c \<le> 30) \<or> c = 133 \<or> c = 8232 \<or> c = 8233"

definition strip :: "pystr \<Rightarrow> pystr" where
  "strip s = rev (dropWhile isspace (rev (dropWhile isspace s)))"

text \<open>
  \<open>splitlines_from cur s\<close> scans \<open>s\<close> with the line read so far in \<open>cur\<close>. A
  boundary closes the current line (which may be empty); text after the last boundary
  is a line only when it is not empty, so a final boundary adds no empty line.
\<close>

fun splitlines_from :: "pystr \<Rightarrow> pystr \<Rightarrow> pystr list" where
  "splitlines_from cur [] = (if cur = [] then [] else [cur])"
| "splitlines_from cur (c # cs) =
     (if c = 13 then
        (case cs of
           [] \<Rightarrow> cur # splitlines_from [] cs
         | d # ds \<Rightarrow> if d = 10 then cur # splitlines_from [] ds
                    else cur # splitlines_from [] cs)
      else if islinebreak c then cur # splitlines_from [] cs
      else splitlines_from (cur @ [c]) cs)"

definition splitlines :: "pystr \<Rightarrow> pystr list" where
  "splitlines s = splitlines_from [] s"

section \<open>Exceptions\<close>

text \<open>
  The exceptions the code can meet, each with the text \<open>str(e)\<close> gives: the
  \<open>KeyError\<close> of a dictionary subscript, carrying the missing key, and any other
  instance of \<open>Exception\<close> raised by a library call, carrying its message. Both are
  caught by \<open>except Exception\<close>. Exceptions outside \<open>Exception\<close>
  (\<open>KeyboardInterrupt\<close>, \<open>SystemExit\<close>) arrive from outside the program and are not
  modelled.
\<close>

datatype py_exn = KeyError pystr | Exception pystr

section \<open>The template engine\<close>

text \<open>
  \<open>jinja2.Template(source).render(**vars)\<close>, for the part of the template language
  the two templates of the source use: literal text and \<open>{{ name }}\<close> expressions
  holding one variable name. The lexer drops one final newline of the source (the
  default \<open>keep_trailing_newline=False\<close>), copies literal text, and reads the text
  between \<open>{{\<close> and \<open>}}\<close> as a name with the blanks around it removed. An expression
  that is never closed is a \<open>TemplateSyntaxError\<close>. Rendering writes the value of each
  name as it is (no escaping: \<open>autoescape\<close> is off), and nothing for a name that is
  not defined.
\<close>

datatype token = Data pystr | Variable pystr

fun tokenize :: "bool \<Rightarrow> pystr \<Rightarrow> pystr \<Rightarrow> token list option" where
  "tokenize in_expr acc [] = (if in_expr then None else Some [Data acc])"
| "tokenize in_expr acc [c] = (if in_expr then None else Some [Data (acc @ [c])])"
| "tokenize in_expr acc (c # d # cs) =
     (if in_expr then
        (if c = 125 \<and> d = 125
         then map_option (\<lambda>ts. Variable (strip acc) # ts) (tokenize False [] cs)
         else tokenize True (acc @ [c]) (d # cs))
      else
        (if c = 123 \<and> d = 123
         then map_option (\<lambda>ts. Data acc # ts) (tokenize True [] cs)
         else tokenize False (acc @ [c]) (d # cs)))"

definition drop_trailing_newline :: "pystr \<Rightarrow> pystr" where
  "drop_trailing_newline s = (if s \<noteq> [] \<and> last s = 10 then butlast s else s)"

definition Template :: "pystr \<Rightarrow> py_exn + token list" where
  "Template source =
     (case tokenize False [] (drop_trailing_newline source) of
        None \<Rightarrow> Inl (Exception (py ''TemplateSyntaxError''))
      | Some ts \<Rightarrow> Inr ts)"

fun render_token :: "(pystr \<rightharpoonup> pystr) \<Rightarrow> token \<Rightarrow> pystr" where
  "render_token vars (Data s) = s"
| "render_token vars (Variable n) = (case vars n of None \<Rightarrow> [] | Some v \<Rightarrow> v)"

definition render :: "token list \<Rightarrow> (pystr \<rightharpoonup> pystr) \<Rightarrow> pystr" where
  "render ts vars = concat (map (render_token vars) ts)"

section \<open>The template renderer (task-4/configuration\_tool.py)\<close>

definition create_template :: pystr where
  "create_template =
     py ''\<newline>interface {{ interface }}\<newline>ip address {{ ip_address }} {{ subnet }}\<newline>no shutdown\<newline>''"

definition delete_template :: pystr where
  "delete_template =
     py ''\<newline>interface {{ interface }}\<newline>no ip address\<newline>shutdown\<newline>''"

text \<open>
  \<open>render_interface_config\<close>: the branch on \<open>action\<close> chooses the variables and the
  template; the rendered text is split into lines and every line that is not blank
  is kept, stripped.
\<close>

definition render_interface_config ::
  "pystr \<Rightarrow> pystr \<Rightarrow> pystr \<Rightarrow> pystr \<Rightarrow> py_exn + pystr list" where
  "render_interface_config action interface ip_address subnet_mask =
     (let (config_vars, template_string) =
            (if action = py ''create''
             then ([py ''interface'' \<mapsto> interface,
                    py ''ip_address'' \<mapsto> ip_address,
                    py ''subnet'' \<mapsto> subnet_mask], create_template)
             else ([py ''interface'' \<mapsto> interface], delete_template))
      in case Template template_string of
           Inl e \<Rightarrow> Inl e
         | Inr t \<Rightarrow>
             (let rendered_config = render t config_vars
              in Inr (map strip (filter (\<lambda>line. strip line \<noteq> [])
                                        (splitlines rendered_config)))))"

section \<open>Connection parameters\<close>

text \<open>
  An inventory record and a connection descriptor are dictionaries from strings to
  strings. \<open>get_conn_info\<close> subscripts the record in the order of the dictionary
  display: \<open>"Management IP"\<close>, \<open>"Username"\<close>, \<open>"Password"\<close> (twice); the first
  key that is absent raises \<open>KeyError\<close> with that key. The function only reads its
  argument, so the model is a function of the record alone.
\<close>

definition get_conn_info :: "(pystr \<rightharpoonup> pystr) \<Rightarrow> py_exn + (pystr \<rightharpoonup> pystr)" where
  "get_conn_info dev_data =
     (case dev_data (py ''Management IP'') of
        None \<Rightarrow> Inl (KeyError (py ''Management IP''))
      | Some host \<Rightarrow>
     (case dev_data (py ''Username'') of
        None \<Rightarrow> Inl (KeyError (py ''Username''))
      | Some username \<Rightarrow>
     (case dev_data (py ''Password'') of
        None \<Rightarrow> Inl (KeyError (py ''Password''))
      | Some password \<Rightarrow>
          Inr [py ''device_type'' \<mapsto> py ''cisco_ios'',
               py ''host'' \<mapsto> host,
               py ''username'' \<mapsto> username,
               py ''password'' \<mapsto> password,
               py ''secret'' \<mapsto> password])))"

section \<open>Sessions\<close>

text \<open>
  The session library is outside the repository, so what it answers is a parameter
  of the model. \<open>ConnectHandler\<close> maps a descriptor to an exception or to a
  connection object; the object holds what its methods answer: whether \<open>enable()\<close>
  raises, and the output or exception of \<open>send_command\<close> and \<open>send_config_set\<close>.
  \<open>disconnect()\<close> has no failure outcome: the library catches what goes wrong
  inside it. A connection object is always true in a condition.

  Every function returns, next to its value, the calls it made on the library and
  the lines it printed, in order.
\<close>

record connection =
  enable_outcome :: "py_exn option"
  send_command_outcome :: "pystr \<Rightarrow> py_exn + pystr"
  send_config_set_outcome :: "pystr list \<Rightarrow> py_exn + pystr"

datatype event =
    ConnectHandlerCall "pystr \<rightharpoonup> pystr"
  | EnableCall
  | SendCommandCall pystr
  | SendConfigSetCall "pystr list"
  | DisconnectCall
  | PrintCall pystr
  | EchoCall pystr

text \<open>
  \<open>str(e)\<close>: the message of an exception; for a \<open>KeyError\<close> the \<open>repr\<close> of the
  key, which for the keys of this program (letters and a blank) is the key between
  single quotes.
\<close>

fun str_exn :: "py_exn \<Rightarrow> pystr" where
  "str_exn (KeyError k) = [39] @ k @ [39]"
| "str_exn (Exception m) = m"

text \<open>\<open>str(device.get('host'))\<close> inside the f-string: an absent key formats as \<open>None\<close>.\<close>

definition str_get :: "(pystr \<rightharpoonup> pystr) \<Rightarrow> pystr \<Rightarrow> pystr" where
  "str_get d k = (case d k of None \<Rightarrow> py ''None'' | Some v \<Rightarrow> v)"

text \<open>
  \<open>connect_device\<close>: both library calls are inside the \<open>try\<close>; the handler prints
  and returns \<open>None\<close>. When \<open>enable()\<close> raises, the object that \<open>ConnectHandler\<close>
  returned is dropped without a \<open>disconnect()\<close>.
\<close>

definition connect_device ::
  "((pystr \<rightharpoonup> pystr) \<Rightarrow> py_exn + connection) \<Rightarrow> (pystr \<rightharpoonup> pystr) \<Rightarrow>
   connection option \<times> event list" where
  "connect_device ConnectHandler device =
     (case ConnectHandler device of
        Inl e \<Rightarrow>
          (None, [ConnectHandlerCall device,
                  PrintCall (py ''Error connecting to device '' @ str_get device (py ''host'') @
                             py '': '' @ str_exn e)])
      | Inr conn \<Rightarrow>
          (case enable_outcome conn of
             Some e \<Rightarrow>
               (None, [ConnectHandlerCall device, EnableCall,
                       PrintCall (py ''Error connecting to device '' @
                                  str_get device (py ''host'') @ py '': '' @ str_exn e)])
           | None \<Rightarrow> (Some conn, [ConnectHandlerCall device, EnableCall])))"

text \<open>
  \<open>send_command\<close> has no handler of its own: an exception of the library call
  leaves the function.
\<close>

definition send_command ::
  "connection option \<Rightarrow> pystr \<Rightarrow> (py_exn + pystr) \<times> event list" where
  "send_command connection command =
     (case connection of
        Some conn \<Rightarrow> (send_command_outcome conn command, [SendCommandCall command])
      | None \<Rightarrow> (Inr (py ''No connection available''), []))"

section \<open>Configuration and interface status\<close>

text \<open>
  \<open>send_config\<close> and \<open>get_interface_brief\<close>: \<open>try\<close> the library call, on an
  exception take the error text as output, and \<open>disconnect()\<close> in the \<open>finally\<close>
  clause before the output is returned.
\<close>

definition send_config ::
  "((pystr \<rightharpoonup> pystr) \<Rightarrow> py_exn + connection) \<Rightarrow> (pystr \<rightharpoonup> pystr) \<Rightarrow> pystr list \<Rightarrow>
   pystr \<times> event list" where
  "send_config ConnectHandler device commands =
     (case connect_device ConnectHandler device of
        (None, tr) \<Rightarrow> (py ''Connection failed; configuration not sent.'', tr)
      | (Some conn, tr) \<Rightarrow>
          (let output =
                 (case send_config_set_outcome conn commands of
                    Inr out \<Rightarrow> out
                  | Inl e \<Rightarrow> py ''Error sending configuration: '' @ str_exn e)
           in (output, tr @ [SendConfigSetCall commands, DisconnectCall])))"

definition get_interface_brief ::
  "((pystr \<rightharpoonup> pystr) \<Rightarrow> py_exn + connection) \<Rightarrow> (pystr \<rightharpoonup> pystr) \<Rightarrow>
   pystr \<times> event list" where
  "get_interface_brief ConnectHandler device =
     (case connect_device ConnectHandler device of
        (None, tr) \<Rightarrow> (py ''Connection failed; cannot retrieve interface brief.'', tr)
      | (Some conn, tr) \<Rightarrow>
          (let output =
                 (case send_command_outcome conn (py ''show ip interface brief'') of
                    Inr out \<Rightarrow> out
                  | Inl e \<Rightarrow> py ''Error retrieving interface brief: '' @ str_exn e)
           in (output, tr @ [SendCommandCall (py ''show ip interface brief''),
                             DisconnectCall])))"

section \<open>The command line\<close>

text \<open>
  \<open>str.split(',')\<close>: the pieces between commas, empty pieces included.
\<close>

fun split_from :: "pystr \<Rightarrow> nat \<Rightarrow> pystr \<Rightarrow> pystr list" where
  "split_from cur sep [] = [cur]"
| "split_from cur sep (c # cs) =
     (if c = sep then cur # split_from [] sep cs else split_from (cur @ [c]) sep cs)"

definition split_comma :: "pystr \<Rightarrow> pystr list" where
  "split_comma s = split_from [] 44 s"

text \<open>
  An option that was not given is \<open>None\<close>; \<open>None\<close> and the empty string are both
  false in a condition, so the text of an option decides the branch.
\<close>

definition option_text :: "pystr option \<Rightarrow> pystr" where
  "option_text opt = (case opt of None \<Rightarrow> [] | Some s \<Rightarrow> s)"


section \<open>The starter file (configuration\_tool.py)\<close>

text \<open>
  The file at the top of the repository has the same \<open>get_conn_info\<close> and
  \<open>cli_main\<close>, word for word, and five functions whose body is \<open>pass\<close>: they
  call nothing and return \<open>None\<close>. Its definitions carry the suffix \<open>_top\<close>.
\<close>

definition get_conn_info_top :: "(pystr \<rightharpoonup> pystr) \<Rightarrow> py_exn + (pystr \<rightharpoonup> pystr)" where
  "get_conn_info_top dev_data =
     (case dev_data (py ''Management IP'') of
        None \<Rightarrow> Inl (KeyError (py ''Management IP''))
      | Some host \<Rightarrow>
     (case dev_data (py ''Username'') of
        None \<Rightarrow> Inl (KeyError (py ''Username''))
      | Some username \<Rightarrow>
     (case dev_data (py ''Password'') of
        None \<Rightarrow> Inl (KeyError (py ''Password''))
      | Some password \<Rightarrow>
          Inr [py ''device_type'' \<mapsto> py ''cisco_ios'',
               py ''host'' \<mapsto> host,
               py ''username'' \<mapsto> username,
               py ''password'' \<mapsto> password,
               py ''secret'' \<mapsto> password])))"

definition connect_device_top :: "(pystr \<rightharpoonup> pystr) \<Rightarrow> connection option \<times> event list" where
  "connect_device_top device = (None, [])"

definition send_command_top :: "connection option \<Rightarrow> pystr \<Rightarrow> pystr option \<times> event list" where
  "send_command_top connection command = (None, [])"

definition send_config_top :: "(pystr \<rightharpoonup> pystr) \<Rightarrow> pystr list \<Rightarrow> pystr option \<times> event list" where
  "send_config_top device commands = (None, [])"



text \<open>\<open>click.echo(None)\<close> writes an empty line.\<close>

definition cli_main_top ::
  "(pystr \<Rightarrow> py_exn + 'inv) \<Rightarrow> ('inv \<Rightarrow> pystr \<Rightarrow> py_exn + (pystr \<rightharpoonup> pystr) option) \<Rightarrow>
   pystr \<Rightarrow> pystr option \<Rightarrow> pystr option \<Rightarrow> event list" where
  "cli_main_top read_inventory get_device_data device_name command config =
     (case read_inventory (py ''inventory.csv'') of
        Inl e \<Rightarrow> [EchoCall (py ''Error: '' @ str_exn e)]
      | Inr inventory \<Rightarrow>
     (case get_device_data inventory device_name of
        Inl e \<Rightarrow> [EchoCall (py ''Error: '' @ str_exn e)]
      | Inr None \<Rightarrow>
          [EchoCall (py ''Device '' @ device_name @ py '' not found in inventory'')]
      | Inr (Some device_data) \<Rightarrow>
          if device_data = Map.empty
          then [EchoCall (py ''Device '' @ device_name @ py '' not found in inventory'')]
          else
     (case get_conn_info_top device_data of
        Inl e \<Rightarrow> [EchoCall (py ''Error: '' @ str_exn e)]
      | Inr conn_info \<Rightarrow>
          if option_text command \<noteq> [] then
            (case connect_device_top conn_info of
               (None, tr) \<Rightarrow> tr @ [EchoCall (py ''Failed to connect to '' @ device_name)]
             | (Some connection, tr) \<Rightarrow>
                 (case send_command_top (Some connection) (option_text command) of
                    (output, tr') \<Rightarrow>
                      tr @ tr' @ [EchoCall (py ''Output from '' @ device_name @ py '':''),
                                  EchoCall (option_text output), DisconnectCall]))
          else if option_text config \<noteq> [] then
            (case send_config_top conn_info (split_comma (option_text config)) of
               (output, tr) \<Rightarrow>
                 tr @ [EchoCall (py ''Configuration output from '' @ device_name @ py '':''),
                       EchoCall (option_text output)])
          else [EchoCall (py ''Please specify --command or --config option'')])))"

section \<open>Lines and white space\<close>

lemma create_tokens: "Template create_template = Inr
  [Data (py ''\<newline>interface ''), Variable (py ''interface''), Data (py ''\<newline>ip address ''),
   Variable (py ''ip_address''), Data (py '' ''), Variable (py ''subnet''), Data (py ''\<newline>no shutdown'')]"
  by (simp add: Template_def create_template_def py_def drop_trailing_newline_def strip_def isspace_def)

lemma delete_tokens: "Template delete_template = Inr
  [Data (py ''\<newline>interface ''), Variable (py ''interface''), Data (py ''\<newline>no ip address\<newline>shutdown'')]"
  by (simp add: Template_def delete_template_def py_def drop_trailing_newline_def strip_def isspace_def)

lemma islinebreak_10: "islinebreak 10"
  by (simp add: islinebreak_def)

lemma not_islinebreak_13: "\<not> islinebreak c \<Longrightarrow> c \<noteq> 13"
  by (auto simp: islinebreak_def)

lemma splitlines_from_line:
  "\<forall>c\<in>set xs. \<not> islinebreak c \<Longrightarrow>
   splitlines_from cur (xs @ 10 # rest) = (cur @ xs) # splitlines_from [] rest"
proof (induction xs arbitrary: cur)
  case Nil
  show ?case by (simp add: islinebreak_10)
next
  case (Cons x xs)
  then have "\<not> islinebreak x" and "x \<noteq> 13" by (auto dest: not_islinebreak_13)
  with Cons show ?case by simp
qed

lemma splitlines_from_end:
  "\<forall>c\<in>set xs. \<not> islinebreak c \<Longrightarrow>
   splitlines_from cur xs = (if cur @ xs = [] then [] else [cur @ xs])"
proof (induction xs arbitrary: cur)
  case Nil
  show ?case by simp
next
  case (Cons x xs)
  then have "\<not> islinebreak x" and "x \<noteq> 13" by (auto dest: not_islinebreak_13)
  with Cons show ?case by simp
qed

lemma strip_Nil: "strip [] = []"
  by (simp add: strip_def)

lemma strip_clean:
  assumes "xs \<noteq> []" and "\<not> isspace (hd xs)" and "\<not> isspace (last xs)"
  shows "strip xs = xs"
proof -
  from assms have front: "dropWhile isspace xs = xs"
    by (cases xs) simp_all
  from assms have "rev xs \<noteq> []" and "\<not> isspace (hd (rev xs))"
    by (simp_all add: hd_rev)
  then have "dropWhile isspace (rev xs) = rev xs"
    by (cases "rev xs") simp_all
  with front show ?thesis by (simp add: strip_def)
qed

lemma last_dropWhile_keep:
  "dropWhile P ys \<noteq> [] \<Longrightarrow> last (dropWhile P ys) = last ys"
  by (induction ys) (auto split: if_splits)

lemma strip_strip: "strip (strip xs) = strip xs"
proof (cases "strip xs = []")
  case True
  then show ?thesis by (simp add: strip_Nil)
next
  case False
  define ys where "ys = dropWhile isspace xs"
  define zs where "zs = dropWhile isspace (rev ys)"
  have s: "strip xs = rev zs" by (simp add: strip_def ys_def zs_def)
  with False have zs: "zs \<noteq> []" by simp
  then have ys: "ys \<noteq> []" by (auto simp: zs_def)
  have "\<not> isspace (hd zs)" using zs unfolding zs_def by (rule hd_dropWhile)
  then have l: "\<not> isspace (last (rev zs))" using zs by (simp add: last_rev)
  have "last zs = last (rev ys)" using zs unfolding zs_def by (rule last_dropWhile_keep)
  then have "last zs = hd ys" using ys by (simp add: last_rev)
  moreover have "\<not> isspace (hd ys)" using ys unfolding ys_def by (rule hd_dropWhile)
  ultimately have h: "\<not> isspace (hd (rev zs))" using zs by (simp add: hd_rev)
  from zs h l have "strip (rev zs) = rev zs" by (intro strip_clean) simp_all
  with s show ?thesis by simp
qed

lemma py_nobreak_interface: "\<forall>c\<in>set (py ''interface ''). \<not> islinebreak c"
  by (simp add: py_def islinebreak_def)

lemma py_nobreak_ip_address: "\<forall>c\<in>set (py ''ip address ''). \<not> islinebreak c"
  by (simp add: py_def islinebreak_def)

lemma py_nobreak_no_shutdown: "\<forall>c\<in>set (py ''no shutdown''). \<not> islinebreak c"
  by (simp add: py_def islinebreak_def)

lemma render_create:
  "render_interface_config (py ''create'') interface ip_address subnet_mask =
     Inr (map strip (filter (\<lambda>line. strip line \<noteq> [])
       (splitlines ([10] @ (py ''interface '' @ interface) @ 10 #
                    (py ''ip address '' @ ip_address @ py '' '' @ subnet_mask) @ 10 #
                    py ''no shutdown''))))"
  by (simp add: render_interface_config_def create_tokens render_def) (simp add: py_def)

lemma render_delete:
  "action \<noteq> py ''create'' \<Longrightarrow>
   render_interface_config action interface ip_address subnet_mask =
     Inr (map strip (filter (\<lambda>line. strip line \<noteq> [])
       (splitlines ([10] @ (py ''interface '' @ interface) @ 10 #
                    py ''no ip address'' @ 10 # py ''shutdown''))))"
  by (simp add: render_interface_config_def delete_tokens render_def) (simp add: py_def)

lemma splitlines_create:
  assumes "\<forall>c\<in>set interface. \<not> islinebreak c"
    and "\<forall>c\<in>set ip_address. \<not> islinebreak c"
    and "\<forall>c\<in>set subnet_mask. \<not> islinebreak c"
  shows "splitlines ([10] @ (py ''interface '' @ interface) @ 10 #
                    (py ''ip address '' @ ip_address @ py '' '' @ subnet_mask) @ 10 #
                    py ''no shutdown'') =
         [] # [py ''interface '' @ interface,
          py ''ip address '' @ ip_address @ py '' '' @ subnet_mask, py ''no shutdown'']"
proof -
  have a: "\<forall>c\<in>set (py ''interface '' @ interface). \<not> islinebreak c"
    using assms(1) py_nobreak_interface by auto
  have b: "\<forall>c\<in>set (py ''ip address '' @ ip_address @ py '' '' @ subnet_mask). \<not> islinebreak c"
    using assms(2,3) py_nobreak_ip_address by (auto simp: py_def islinebreak_def)
  have e: "splitlines_from [] (py ''no shutdown'') = [py ''no shutdown'']"
    using splitlines_from_end [OF py_nobreak_no_shutdown, of "[]"] by (simp add: py_def)
  let ?A = "py ''interface '' @ interface"
  let ?B = "py ''ip address '' @ ip_address @ py '' '' @ subnet_mask"
  have "splitlines_from [] (?B @ 10 # py ''no shutdown'') = [?B, py ''no shutdown'']"
    using splitlines_from_line [OF b, of "[]" "py ''no shutdown''"] e by simp
  then have "splitlines_from [] (?A @ 10 # ?B @ 10 # py ''no shutdown'') =
      [?A, ?B, py ''no shutdown'']"
    using splitlines_from_line [OF a, of "[]" "?B @ 10 # py ''no shutdown''"] by simp
  then have "splitlines_from [] ([] @ 10 # ?A @ 10 # ?B @ 10 # py ''no shutdown'') =
      [] # [?A, ?B, py ''no shutdown'']"
    using splitlines_from_line [of "[]" "[]" "?A @ 10 # ?B @ 10 # py ''no shutdown''"]
    by simp
  then show ?thesis by (simp add: splitlines_def)
qed

lemma py_nobreak_no_ip_address: "\<forall>c\<in>set (py ''no ip address''). \<not> islinebreak c"
  by (simp add: py_def islinebreak_def)

lemma py_nobreak_shutdown: "\<forall>c\<in>set (py ''shutdown''). \<not> islinebreak c"
  by (simp add: py_def islinebreak_def)

lemma splitlines_delete:
  assumes "\<forall>c\<in>set interface. \<not> islinebreak c"
  shows "splitlines ([10] @ (py ''interface '' @ interface) @ 10 #
                    py ''no ip address'' @ 10 # py ''shutdown'') =
         [] # [py ''interface '' @ interface, py ''no ip address'', py ''shutdown'']"
proof -
  let ?A = "py ''interface '' @ interface"
  have a: "\<forall>c\<in>set ?A. \<not> islinebreak c"
    using assms py_nobreak_interface by auto
  have e: "splitlines_from [] (py ''shutdown'') = [py ''shutdown'']"
    using splitlines_from_end [OF py_nobreak_shutdown, of "[]"] by (simp add: py_def)
  have "splitlines_from [] (py ''no ip address'' @ 10 # py ''shutdown'') =
      [py ''no ip address'', py ''shutdown'']"
    using splitlines_from_line [OF py_nobreak_no_ip_address, of "[]" "py ''shutdown''"] e
    by simp
  then have "splitlines_from [] (?A @ 10 # py ''no ip address'' @ 10 # py ''shutdown'') =
      [?A, py ''no ip address'', py ''shutdown'']"
    using splitlines_from_line [OF a, of "[]" "py ''no ip address'' @ 10 # py ''shutdown''"]
    by simp
  then have "splitlines_from [] ([] @ 10 # ?A @ 10 # py ''no ip address'' @ 10 # py ''shutdown'') =
      [] # [?A, py ''no ip address'', py ''shutdown'']"
    using splitlines_from_line [of "[]" "[]" "?A @ 10 # py ''no ip address'' @ 10 # py ''shutdown''"]
    by simp
  then show ?thesis by (simp add: splitlines_def)
qed

lemma strip_interface_line:
  assumes "interface \<noteq> []" and "\<not> isspace (last interface)"
  shows "strip (py ''interface '' @ interface) = py ''interface '' @ interface"
proof (rule strip_clean)
  show "py ''interface '' @ interface \<noteq> []" using assms by simp
  show "\<not> isspace (hd (py ''interface '' @ interface))"
    by (simp add: py_def isspace_def)
  show "\<not> isspace (last (py ''interface '' @ interface))" using assms by simp
qed

lemma strip_ip_address_line:
  assumes "subnet_mask \<noteq> []" and "\<not> isspace (last subnet_mask)"
  shows "strip (py ''ip address '' @ ip_address @ py '' '' @ subnet_mask) =
         py ''ip address '' @ ip_address @ py '' '' @ subnet_mask"
proof (rule strip_clean)
  show "py ''ip address '' @ ip_address @ py '' '' @ subnet_mask \<noteq> []" using assms by simp
  show "\<not> isspace (hd (py ''ip address '' @ ip_address @ py '' '' @ subnet_mask))"
    by (simp add: py_def isspace_def)
  show "\<not> isspace (last (py ''ip address '' @ ip_address @ py '' '' @ subnet_mask))"
    using assms by simp
qed

lemma strip_no_shutdown: "strip (py ''no shutdown'') = py ''no shutdown''"
  by (rule strip_clean) (simp_all add: py_def isspace_def)

lemma strip_no_ip_address: "strip (py ''no ip address'') = py ''no ip address''"
  by (rule strip_clean) (simp_all add: py_def isspace_def)

lemma strip_shutdown: "strip (py ''shutdown'') = py ''shutdown''"
  by (rule strip_clean) (simp_all add: py_def isspace_def)

lemma py_lines_nonempty:
  "py ''no shutdown'' \<noteq> []" "py ''no ip address'' \<noteq> []" "py ''shutdown'' \<noteq> []"
  by (simp_all add: py_def)


section \<open>Properties of the template renderer\<close>

lemma kept_lines_trimmed:
  "\<forall>l\<in>set (map strip (filter (\<lambda>line. strip line \<noteq> []) ls)). l \<noteq> [] \<and> strip l = l"
  by (auto simp: strip_strip)

text \<open>
  C1 (amended). Rendering with action \<open>"create"\<close> never raises, and every line it
  returns is non-empty and stripped. When the three arguments contain no line boundary
  and the interface name and the subnet mask are non-empty and do not end in white
  space, the result is exactly the three lines \<open>interface <interface>\<close>,
  \<open>ip address <ip_address> <subnet_mask>\<close>, \<open>no shutdown\<close>, in that order.
\<close>

theorem render_create_lines:
  "\<exists>ls. render_interface_config (py ''create'') interface ip_address subnet_mask = Inr ls \<and>
     (\<forall>l\<in>set ls. l \<noteq> [] \<and> strip l = l) \<and>
     ((\<forall>c\<in>set (interface @ ip_address @ subnet_mask). \<not> islinebreak c) \<and>
      interface \<noteq> [] \<and> \<not> isspace (last interface) \<and>
      subnet_mask \<noteq> [] \<and> \<not> isspace (last subnet_mask) \<longrightarrow>
      ls = [py ''interface '' @ interface,
            py ''ip address '' @ ip_address @ py '' '' @ subnet_mask,
            py ''no shutdown''])"
proof (intro exI conjI impI)
  show "render_interface_config (py ''create'') interface ip_address subnet_mask =
      Inr (map strip (filter (\<lambda>line. strip line \<noteq> [])
       (splitlines ([10] @ (py ''interface '' @ interface) @ 10 #
                    (py ''ip address '' @ ip_address @ py '' '' @ subnet_mask) @ 10 #
                    py ''no shutdown''))))"
    by (rule render_create)
  show "\<forall>l\<in>set (map strip (filter (\<lambda>line. strip line \<noteq> [])
       (splitlines ([10] @ (py ''interface '' @ interface) @ 10 #
                    (py ''ip address '' @ ip_address @ py '' '' @ subnet_mask) @ 10 #
                    py ''no shutdown'')))). l \<noteq> [] \<and> strip l = l"
    by (rule kept_lines_trimmed)
next
  let ?A = "py ''interface '' @ interface"
  let ?B = "py ''ip address '' @ ip_address @ py '' '' @ subnet_mask"
  assume h: "(\<forall>c\<in>set (interface @ ip_address @ subnet_mask). \<not> islinebreak c) \<and>
      interface \<noteq> [] \<and> \<not> isspace (last interface) \<and>
      subnet_mask \<noteq> [] \<and> \<not> isspace (last subnet_mask)"
  then have nb: "\<forall>c\<in>set interface. \<not> islinebreak c" "\<forall>c\<in>set ip_address. \<not> islinebreak c"
      "\<forall>c\<in>set subnet_mask. \<not> islinebreak c"
    by auto
  from h have sa: "strip ?A = ?A" by (intro strip_interface_line) simp_all
  from h have sb: "strip ?B = ?B" by (intro strip_ip_address_line) simp_all
  from h have na: "?A \<noteq> []" and nb': "?B \<noteq> []" by simp_all
  show "map strip (filter (\<lambda>line. strip line \<noteq> [])
       (splitlines ([10] @ ?A @ 10 # ?B @ 10 # py ''no shutdown''))) =
       [?A, ?B, py ''no shutdown'']"
    unfolding splitlines_create [OF nb]
    using sa sb na nb' by (simp add: strip_Nil strip_no_shutdown py_lines_nonempty)
qed

text \<open>The example of the specification, as an instance.\<close>

theorem render_create_lines_witness:
  "render_interface_config (py ''create'') (py ''GigabitEthernet0/1'') (py ''10.0.0.1'')
     (py ''255.255.255.0'') =
   Inr [py ''interface GigabitEthernet0/1'', py ''ip address 10.0.0.1 255.255.255.0'',
        py ''no shutdown'']"
  using render_create_lines [of "py ''GigabitEthernet0/1''" "py ''10.0.0.1''" "py ''255.255.255.0''"]
  by (simp add: py_def islinebreak_def isspace_def)

text \<open>
  C1 as stated fails for an interface name that holds a line boundary: the values are
  inserted as they are and the rendered text is split afterwards, so the result has
  four lines.
\<close>

theorem render_create_newline_counterexample:
  "render_interface_config (py ''create'') (py ''Gi0/1\<newline>reload'') (py ''10.0.0.1'')
     (py ''255.255.255.0'') =
   Inr [py ''interface Gi0/1'', py ''reload'', py ''ip address 10.0.0.1 255.255.255.0'',
        py ''no shutdown''] \<and>
   render_interface_config (py ''create'') (py ''Gi0/1\<newline>reload'') (py ''10.0.0.1'')
     (py ''255.255.255.0'') \<noteq>
   Inr [py ''interface '' @ py ''Gi0/1\<newline>reload'',
        py ''ip address '' @ py ''10.0.0.1'' @ py '' '' @ py ''255.255.255.0'',
        py ''no shutdown'']"
  by (simp add: render_create splitlines_def)
     (simp add: py_def strip_def islinebreak_def isspace_def)

text \<open>
  C2 (amended). For every action other than \<open>"create"\<close> rendering never raises, the
  result is the same whatever the address and the mask are, and every line is
  non-empty and stripped. When the interface name contains no line boundary, is
  non-empty and does not end in white space, the result is exactly the three lines
  \<open>interface <interface>\<close>, \<open>no ip address\<close>, \<open>shutdown\<close>.
\<close>

theorem render_delete_lines:
  assumes "action \<noteq> py ''create''"
  shows "\<exists>ls. render_interface_config action interface ip_address subnet_mask = Inr ls \<and>
     render_interface_config action interface ip_address' subnet_mask' = Inr ls \<and>
     (\<forall>l\<in>set ls. l \<noteq> [] \<and> strip l = l) \<and>
     ((\<forall>c\<in>set interface. \<not> islinebreak c) \<and>
      interface \<noteq> [] \<and> \<not> isspace (last interface) \<longrightarrow>
      ls = [py ''interface '' @ interface, py ''no ip address'', py ''shutdown''])"
proof (intro exI conjI impI)
  let ?ls = "map strip (filter (\<lambda>line. strip line \<noteq> [])
       (splitlines ([10] @ (py ''interface '' @ interface) @ 10 #
                    py ''no ip address'' @ 10 # py ''shutdown'')))"
  show "render_interface_config action interface ip_address subnet_mask = Inr ?ls"
    using assms by (rule render_delete)
  show "render_interface_config action interface ip_address' subnet_mask' = Inr ?ls"
    using assms by (rule render_delete)
  show "\<forall>l\<in>set ?ls. l \<noteq> [] \<and> strip l = l"
    by (rule kept_lines_trimmed)
next
  let ?A = "py ''interface '' @ interface"
  assume h: "(\<forall>c\<in>set interface. \<not> islinebreak c) \<and>
      interface \<noteq> [] \<and> \<not> isspace (last interface)"
  then have nb: "\<forall>c\<in>set interface. \<not> islinebreak c" by simp
  from h have sa: "strip ?A = ?A" by (intro strip_interface_line) simp_all
  from h have na: "?A \<noteq> []" by simp
  show "map strip (filter (\<lambda>line. strip line \<noteq> [])
       (splitlines ([10] @ ?A @ 10 # py ''no ip address'' @ 10 # py ''shutdown''))) =
       [?A, py ''no ip address'', py ''shutdown'']"
    unfolding splitlines_delete [OF nb]
    using sa na
    by (simp add: strip_Nil strip_no_ip_address strip_shutdown py_lines_nonempty)
qed

text \<open>The example of the specification, with two different addresses and masks.\<close>

theorem render_delete_lines_witness:
  "py ''delete'' \<noteq> py ''create'' \<and>
   render_interface_config (py ''delete'') (py ''GigabitEthernet0/1'') (py ''10.0.0.1'')
     (py ''255.255.255.0'') =
   Inr [py ''interface GigabitEthernet0/1'', py ''no ip address'', py ''shutdown''] \<and>
   render_interface_config (py ''delete'') (py ''GigabitEthernet0/1'') (py ''192.168.1.7'')
     (py ''255.255.0.0'') =
   Inr [py ''interface GigabitEthernet0/1'', py ''no ip address'', py ''shutdown'']"
proof -
  have ne: "py ''delete'' \<noteq> py ''create''" by (simp add: py_def)
  show ?thesis
    using ne render_delete_lines [OF ne, of "py ''GigabitEthernet0/1''" "py ''10.0.0.1''"
        "py ''255.255.255.0''" "py ''192.168.1.7''" "py ''255.255.0.0''"]
    by (simp add: py_def islinebreak_def isspace_def)
qed

text \<open>
  C2 as stated fails for the empty interface name: the line \<open>interface \<close> loses its
  final blank when it is stripped.
\<close>

theorem render_delete_empty_counterexample:
  "render_interface_config (py ''delete'') [] (py ''10.0.0.1'') (py ''255.255.255.0'') =
   Inr [py ''interface'', py ''no ip address'', py ''shutdown''] \<and>
   render_interface_config (py ''delete'') [] (py ''10.0.0.1'') (py ''255.255.255.0'') \<noteq>
   Inr [py ''interface '' @ [], py ''no ip address'', py ''shutdown'']"
proof -
  have ne: "py ''delete'' \<noteq> py ''create''" by (simp add: py_def)
  show ?thesis
    by (simp add: render_delete [OF ne] splitlines_def)
       (simp add: py_def strip_def islinebreak_def isspace_def)
qed

section \<open>Properties of the connection parameters and of \<open>send_command\<close>\<close>

lemma key_distinct:
  "py ''device_type'' \<noteq> py ''host''" "py ''device_type'' \<noteq> py ''username''"
  "py ''device_type'' \<noteq> py ''password''" "py ''device_type'' \<noteq> py ''secret''"
  "py ''host'' \<noteq> py ''username''" "py ''host'' \<noteq> py ''password''"
  "py ''host'' \<noteq> py ''secret''" "py ''username'' \<noteq> py ''password''"
  "py ''username'' \<noteq> py ''secret''" "py ''password'' \<noteq> py ''secret''"
  by (simp_all add: py_def)

text \<open>
  C4. For every inventory record that has the keys \<open>"Management IP"\<close>, \<open>"Username"\<close>
  and \<open>"Password"\<close>, \<open>get_conn_info\<close> returns a descriptor whose \<open>device_type\<close> is
  the constant \<open>"cisco_ios"\<close>, whose \<open>host\<close> is the record's management address and
  whose \<open>secret\<close> equals the record's password (as does \<open>password\<close>); the
  descriptor has these five keys and no other. The result is a function of the record
  alone: the record is read, never written.
\<close>

theorem get_conn_info_descriptor:
  assumes "dev_data (py ''Management IP'') = Some ip"
    and "dev_data (py ''Username'') = Some user"
    and "dev_data (py ''Password'') = Some pw"
  shows "\<exists>d. get_conn_info dev_data = Inr d \<and>
           d (py ''device_type'') = Some (py ''cisco_ios'') \<and>
           d (py ''host'') = Some ip \<and>
           d (py ''username'') = Some user \<and>
           d (py ''password'') = Some pw \<and>
           d (py ''secret'') = Some pw \<and>
           dom d = {py ''device_type'', py ''host'', py ''username'', py ''password'',
                    py ''secret''}"
  using assms key_distinct by (auto simp: get_conn_info_def)

text \<open>
  An inventory record with a name column, as an instance.
\<close>

theorem get_conn_info_descriptor_witness:
  "\<exists>d. get_conn_info [py ''Name'' \<mapsto> py ''R1'', py ''Management IP'' \<mapsto> py ''10.0.0.1'',
                        py ''Username'' \<mapsto> py ''admin'', py ''Password'' \<mapsto> py ''cisco123''] = Inr d \<and>
       d (py ''device_type'') = Some (py ''cisco_ios'') \<and>
       d (py ''host'') = Some (py ''10.0.0.1'') \<and>
       d (py ''secret'') = Some (py ''cisco123'')"
  using get_conn_info_descriptor [of "[py ''Name'' \<mapsto> py ''R1'', py ''Management IP'' \<mapsto> py ''10.0.0.1'',
                        py ''Username'' \<mapsto> py ''admin'', py ''Password'' \<mapsto> py ''cisco123'']"
      "py ''10.0.0.1''" "py ''admin''" "py ''cisco123''"]
  by (auto simp: py_def)

text \<open>
  C7. A record without \<open>"Management IP"\<close> makes \<open>get_conn_info\<close> fail with the
  error that names this key, and a record without any one of the three required keys
  makes it fail with the error that names a required key the record does not have.
  The error of a missing field is Python's \<open>KeyError\<close>, a constructor of its own
  among the exceptions of the model.
\<close>

theorem get_conn_info_missing_key:
  "(dev_data (py ''Management IP'') = None \<longrightarrow>
      get_conn_info dev_data = Inl (KeyError (py ''Management IP''))) \<and>
   (dev_data (py ''Management IP'') = None \<or> dev_data (py ''Username'') = None \<or>
    dev_data (py ''Password'') = None \<longrightarrow>
      (\<exists>k. get_conn_info dev_data = Inl (KeyError k) \<and> dev_data k = None \<and>
           k \<in> {py ''Management IP'', py ''Username'', py ''Password''}))"
  by (auto simp: get_conn_info_def split: option.splits)

text \<open>
  A record without its management address, as an instance.
\<close>

theorem get_conn_info_missing_key_witness:
  "get_conn_info [py ''Name'' \<mapsto> py ''R1'', py ''Username'' \<mapsto> py ''admin'',
                  py ''Password'' \<mapsto> py ''cisco123''] =
     Inl (KeyError (py ''Management IP''))"
  using get_conn_info_missing_key [of "[py ''Name'' \<mapsto> py ''R1'', py ''Username'' \<mapsto> py ''admin'',
                  py ''Password'' \<mapsto> py ''cisco123'']"]
  by (simp add: py_def)

text \<open>
  C5. For every command, \<open>send_command\<close> without a connection returns the text
  \<open>No connection available\<close>, raises nothing and calls nothing; with a connection it
  makes the one library call and returns what that call answers for the command.
\<close>

theorem send_command_result:
  "send_command None command = (Inr (py ''No connection available''), []) \<and>
   send_command (Some conn) command =
     (send_command_outcome conn command, [SendCommandCall command])"
  by (simp add: send_command_def)

section \<open>Properties of the session lifecycle\<close>

lemma connect_device_Some:
  "fst (connect_device ConnectHandler device) = Some conn \<longleftrightarrow>
   ConnectHandler device = Inr conn \<and> enable_outcome conn = None"
  by (auto simp: connect_device_def split: sum.splits option.splits)

lemma connect_device_Some_trace:
  "fst (connect_device ConnectHandler device) = Some conn \<Longrightarrow>
   connect_device ConnectHandler device = (Some conn, [ConnectHandlerCall device, EnableCall])"
  by (auto simp: connect_device_def split: sum.splits option.splits)

lemma connect_device_trace_cases:
  "snd (connect_device ConnectHandler device) = [ConnectHandlerCall device, EnableCall] \<or>
   (\<exists>m. snd (connect_device ConnectHandler device) = [ConnectHandlerCall device, PrintCall m]) \<or>
   (\<exists>m. snd (connect_device ConnectHandler device) =
          [ConnectHandlerCall device, EnableCall, PrintCall m])"
  by (auto simp: connect_device_def split: sum.splits option.splits)

lemma connect_device_no_send:
  "ev \<in> set (snd (connect_device ConnectHandler device)) \<Longrightarrow>
   ev \<noteq> DisconnectCall \<and> (\<forall>cs. ev \<noteq> SendConfigSetCall cs) \<and> (\<forall>c. ev \<noteq> SendCommandCall c)"
  by (auto simp: connect_device_def split: sum.splits option.splits)

text \<open>
  C3. When \<open>connect_device\<close> returns a connection (the session is open and
  elevated), \<open>send_config\<close> calls \<open>disconnect()\<close> exactly once, after the send,
  whether the send returns or raises; an exception of the send becomes the returned
  text \<open>Error sending configuration: <message>\<close>, and otherwise the device output is
  returned.
\<close>

theorem send_config_closes_once:
  assumes "fst (connect_device ConnectHandler device) = Some conn"
  shows "snd (send_config ConnectHandler device commands) =
           [ConnectHandlerCall device, EnableCall, SendConfigSetCall commands, DisconnectCall] \<and>
         filter (\<lambda>ev. ev = DisconnectCall) (snd (send_config ConnectHandler device commands)) =
           [DisconnectCall] \<and>
         (\<forall>out. send_config_set_outcome conn commands = Inr out \<longrightarrow>
            fst (send_config ConnectHandler device commands) = out) \<and>
         (\<forall>e. send_config_set_outcome conn commands = Inl e \<longrightarrow>
            fst (send_config ConnectHandler device commands) =
              py ''Error sending configuration: '' @ str_exn e)"
  using connect_device_Some_trace [OF assms]
  by (simp add: send_config_def)

text \<open>
  A device that accepts the session and raises on the send, as an instance.
\<close>

theorem send_config_closes_once_witness:
  "snd (send_config
         (\<lambda>d. Inr \<lparr>enable_outcome = None,
                    send_command_outcome = (\<lambda>c. Inr (py ''R1#'')),
                    send_config_set_outcome = (\<lambda>cs. Inl (Exception (py ''Pattern not detected'')))\<rparr>)
         [py ''host'' \<mapsto> py ''10.0.0.1''] [py ''hostname R1'']) =
     [ConnectHandlerCall [py ''host'' \<mapsto> py ''10.0.0.1''], EnableCall,
      SendConfigSetCall [py ''hostname R1''], DisconnectCall] \<and>
   fst (send_config
         (\<lambda>d. Inr \<lparr>enable_outcome = None,
                    send_command_outcome = (\<lambda>c. Inr (py ''R1#'')),
                    send_config_set_outcome = (\<lambda>cs. Inl (Exception (py ''Pattern not detected'')))\<rparr>)
         [py ''host'' \<mapsto> py ''10.0.0.1''] [py ''hostname R1'']) =
     py ''Error sending configuration: Pattern not detected''"
proof -
  let ?conn = "\<lparr>enable_outcome = None,
                 send_command_outcome = (\<lambda>c. Inr (py ''R1#'')),
                 send_config_set_outcome = (\<lambda>cs. Inl (Exception (py ''Pattern not detected'')))\<rparr>"
  have h: "fst (connect_device (\<lambda>d. Inr ?conn) [py ''host'' \<mapsto> py ''10.0.0.1'']) = Some ?conn"
    by (simp add: connect_device_def)
  show ?thesis
    using send_config_closes_once [OF h, of "[py ''hostname R1'']"]
    by (simp add: py_def)
qed

text \<open>
  C6 (amended). When the session open fails (\<open>connect_device\<close> returns \<open>None\<close>),
  \<open>send_config\<close> returns the fixed text \<open>Connection failed; configuration not sent.\<close>,
  whatever the cause, and sends nothing. When \<open>ConnectHandler\<close> raises (the host
  cannot be reached), the only library call is that failed \<open>ConnectHandler\<close>,
  followed by the printed line that carries host and cause: no connection object
  exists and none is closed.
\<close>

theorem send_config_open_fails:
  assumes "fst (connect_device ConnectHandler device) = None"
  shows "fst (send_config ConnectHandler device commands) =
           py ''Connection failed; configuration not sent.'' \<and>
         (\<forall>ev\<in>set (snd (send_config ConnectHandler device commands)).
            (\<forall>cs. ev \<noteq> SendConfigSetCall cs) \<and> (\<forall>c. ev \<noteq> SendCommandCall c)) \<and>
         (\<forall>e. ConnectHandler device = Inl e \<longrightarrow>
            snd (send_config ConnectHandler device commands) =
              [ConnectHandlerCall device,
               PrintCall (py ''Error connecting to device '' @ str_get device (py ''host'') @
                          py '': '' @ str_exn e)])"
proof (intro conjI ballI allI impI)
  obtain tr where c: "connect_device ConnectHandler device = (None, tr)"
    using assms by (cases "connect_device ConnectHandler device") simp
  then have s: "send_config ConnectHandler device commands =
      (py ''Connection failed; configuration not sent.'', tr)"
    by (simp add: send_config_def)
  then show "fst (send_config ConnectHandler device commands) =
           py ''Connection failed; configuration not sent.''"
    by simp
  {
    fix ev cs
    assume "ev \<in> set (snd (send_config ConnectHandler device commands))"
    then have "ev \<in> set (snd (connect_device ConnectHandler device))" using s c by simp
    then show "ev \<noteq> SendConfigSetCall cs" using connect_device_no_send by blast
  }
  {
    fix ev c'
    assume "ev \<in> set (snd (send_config ConnectHandler device commands))"
    then have "ev \<in> set (snd (connect_device ConnectHandler device))" using s c by simp
    then show "ev \<noteq> SendCommandCall c'" using connect_device_no_send by blast
  }
  {
    fix e
    assume "ConnectHandler device = Inl e"
    then show "snd (send_config ConnectHandler device commands) =
              [ConnectHandlerCall device,
               PrintCall (py ''Error connecting to device '' @ str_get device (py ''host'') @
                          py '': '' @ str_exn e)]"
      by (simp add: send_config_def connect_device_def)
  }
qed

text \<open>
  A refused TCP connection and a refused \<open>enable()\<close>, as instances.
\<close>

theorem send_config_open_fails_witness:
  "send_config (\<lambda>d. Inl (Exception (py ''TCP connection to device failed'')))
     [py ''host'' \<mapsto> py ''10.0.0.1''] [py ''hostname R1''] =
   (py ''Connection failed; configuration not sent.'',
    [ConnectHandlerCall [py ''host'' \<mapsto> py ''10.0.0.1''],
     PrintCall (py ''Error connecting to device 10.0.0.1: TCP connection to device failed'')]) \<and>
   fst (send_config
         (\<lambda>d. Inr \<lparr>enable_outcome = Some (Exception (py ''Failed to enter enable mode'')),
                    send_command_outcome = (\<lambda>c. Inr (py ''R1>'')),
                    send_config_set_outcome = (\<lambda>cs. Inr (py ''R1>''))\<rparr>)
         [py ''host'' \<mapsto> py ''10.0.0.1''] [py ''hostname R1'']) =
     py ''Connection failed; configuration not sent.''"
proof -
  let ?dev = "[py ''host'' \<mapsto> py ''10.0.0.1'']"
  let ?down = "\<lambda>d::pystr \<rightharpoonup> pystr.
     (Inl (Exception (py ''TCP connection to device failed'')) :: py_exn + connection)"
  let ?conn = "\<lparr>enable_outcome = Some (Exception (py ''Failed to enter enable mode'')),
                 send_command_outcome = (\<lambda>c. Inr (py ''R1>'')),
                 send_config_set_outcome = (\<lambda>cs. Inr (py ''R1>''))\<rparr>"
  have a: "fst (connect_device ?down ?dev) = None"
    by (simp add: connect_device_def)
  have b: "fst (connect_device (\<lambda>d. Inr ?conn) ?dev) = None"
    by (simp add: connect_device_def)
  have m: "py ''Error connecting to device '' @ str_get ?dev (py ''host'') @ py '': '' @
        str_exn (Exception (py ''TCP connection to device failed'')) =
      py ''Error connecting to device 10.0.0.1: TCP connection to device failed''"
    by (simp add: py_def str_get_def)
  from send_config_open_fails [OF a, of "[py ''hostname R1'']"]
  have f: "fst (send_config ?down ?dev [py ''hostname R1'']) =
      py ''Connection failed; configuration not sent.''"
    and s: "snd (send_config ?down ?dev [py ''hostname R1'']) =
      [ConnectHandlerCall ?dev,
       PrintCall (py ''Error connecting to device '' @ str_get ?dev (py ''host'') @ py '': '' @
        str_exn (Exception (py ''TCP connection to device failed'')))]"
    by blast+
  have one: "send_config ?down ?dev [py ''hostname R1''] =
      (py ''Connection failed; configuration not sent.'',
       [ConnectHandlerCall ?dev,
        PrintCall (py ''Error connecting to device 10.0.0.1: TCP connection to device failed'')])"
    using f s by (simp only: prod_eq_iff fst_conv snd_conv m simp_thms)
  from send_config_open_fails [OF b, of "[py ''hostname R1'']"]
  have two: "fst (send_config (\<lambda>d. Inr ?conn) ?dev [py ''hostname R1'']) =
      py ''Connection failed; configuration not sent.''"
    by blast
  from one two show ?thesis by (rule conjI)
qed

text \<open>
  C6 as stated fails: the returned text is the same for two different causes and does
  not contain the cause, which is only printed by \<open>connect_device\<close>.
\<close>

theorem send_config_reason_counterexample:
  "fst (send_config (\<lambda>d. Inl (Exception (py ''TCP connection to device failed'')))
         [py ''host'' \<mapsto> py ''10.0.0.1''] [py ''hostname R1'']) =
     py ''Connection failed; configuration not sent.'' \<and>
   fst (send_config (\<lambda>d. Inl (Exception (py ''Authentication to device failed'')))
         [py ''host'' \<mapsto> py ''10.0.0.1''] [py ''hostname R1'']) =
     py ''Connection failed; configuration not sent.'' \<and>
   \<not> sublist (py ''TCP connection to device failed'')
       (fst (send_config (\<lambda>d. Inl (Exception (py ''TCP connection to device failed'')))
               [py ''host'' \<mapsto> py ''10.0.0.1''] [py ''hostname R1'']))"
proof -
  have "\<not> sublist (py ''TCP connection to device failed'')
       (py ''Connection failed; configuration not sent.'')"
    by (simp add: py_def sublist_Cons_right)
  then show ?thesis
    by (simp add: send_config_def connect_device_def)
qed

text \<open>
  The failed open where \<open>ConnectHandler\<close> returns a connection and \<open>enable()\<close>
  raises: the trace holds no \<open>disconnect()\<close> for the connection that was made.
\<close>

lemma send_config_enable_refused:
  assumes "ConnectHandler device = Inr conn" and "enable_outcome conn = Some e"
  shows "send_config ConnectHandler device commands =
           (py ''Connection failed; configuration not sent.'',
            [ConnectHandlerCall device, EnableCall,
             PrintCall (py ''Error connecting to device '' @ str_get device (py ''host'') @
                        py '': '' @ str_exn e)])"
  using assms by (simp add: send_config_def connect_device_def)

text \<open>
  C8 (amended). \<open>connect_device\<close> always returns: when \<open>ConnectHandler\<close> or
  \<open>enable()\<close> raises, it prints \<open>Error connecting to device <host>: <cause>\<close> and
  returns \<open>None\<close>; when both succeed it returns the connection, open and elevated.
\<close>

theorem connect_device_outcomes:
  "(\<forall>e. ConnectHandler device = Inl e \<longrightarrow>
      connect_device ConnectHandler device =
        (None, [ConnectHandlerCall device,
                PrintCall (py ''Error connecting to device '' @ str_get device (py ''host'') @
                           py '': '' @ str_exn e)])) \<and>
   (\<forall>conn e. ConnectHandler device = Inr conn \<and> enable_outcome conn = Some e \<longrightarrow>
      connect_device ConnectHandler device =
        (None, [ConnectHandlerCall device, EnableCall,
                PrintCall (py ''Error connecting to device '' @ str_get device (py ''host'') @
                           py '': '' @ str_exn e)])) \<and>
   (\<forall>conn. ConnectHandler device = Inr conn \<and> enable_outcome conn = None \<longrightarrow>
      connect_device ConnectHandler device =
        (Some conn, [ConnectHandlerCall device, EnableCall]))"
  by (simp add: connect_device_def)

text \<open>
  C8 as stated fails: two failures with different hosts and different causes return
  the same value \<open>None\<close>, so the returned value carries neither host nor cause.
\<close>

theorem connect_device_none_counterexample:
  "fst (connect_device (\<lambda>d. Inl (Exception (py ''TCP connection to device failed'')))
          [py ''host'' \<mapsto> py ''10.0.0.1'']) = None \<and>
   fst (connect_device (\<lambda>d. Inl (Exception (py ''Authentication to device failed'')))
          [py ''host'' \<mapsto> py ''10.0.0.2'']) = None"
  by (simp add: connect_device_def)

text \<open>
  The three outcomes at a concrete descriptor: a refused connection, a refused
  \<open>enable()\<close>, and a session that opens.
\<close>

theorem connect_device_outcomes_witness:
  "connect_device (\<lambda>d. Inl (Exception (py ''TCP connection to device failed'')))
     [py ''host'' \<mapsto> py ''10.0.0.1''] =
     (None, [ConnectHandlerCall [py ''host'' \<mapsto> py ''10.0.0.1''],
             PrintCall (py ''Error connecting to device 10.0.0.1: TCP connection to device failed'')]) \<and>
   connect_device
     (\<lambda>d. Inr \<lparr>enable_outcome = Some (Exception (py ''Failed to enter enable mode'')),
                send_command_outcome = (\<lambda>c. Inr (py ''R1>'')),
                send_config_set_outcome = (\<lambda>cs. Inr (py ''R1>''))\<rparr>)
     [py ''host'' \<mapsto> py ''10.0.0.1''] =
     (None, [ConnectHandlerCall [py ''host'' \<mapsto> py ''10.0.0.1''], EnableCall,
             PrintCall (py ''Error connecting to device 10.0.0.1: Failed to enter enable mode'')]) \<and>
   connect_device
     (\<lambda>d. Inr \<lparr>enable_outcome = None,
                send_command_outcome = (\<lambda>c. Inr (py ''R1#'')),
                send_config_set_outcome = (\<lambda>cs. Inr (py ''R1#''))\<rparr>)
     [py ''host'' \<mapsto> py ''10.0.0.1''] =
     (Some \<lparr>enable_outcome = None,
            send_command_outcome = (\<lambda>c. Inr (py ''R1#'')),
            send_config_set_outcome = (\<lambda>cs. Inr (py ''R1#''))\<rparr>,
      [ConnectHandlerCall [py ''host'' \<mapsto> py ''10.0.0.1''], EnableCall])"
  using
    connect_device_outcomes [of "\<lambda>d. Inl (Exception (py ''TCP connection to device failed''))"
      "[py ''host'' \<mapsto> py ''10.0.0.1'']"]
    connect_device_outcomes [of
      "\<lambda>d. Inr \<lparr>enable_outcome = Some (Exception (py ''Failed to enter enable mode'')),
                send_command_outcome = (\<lambda>c. Inr (py ''R1>'')),
                send_config_set_outcome = (\<lambda>cs. Inr (py ''R1>''))\<rparr>"
      "[py ''host'' \<mapsto> py ''10.0.0.1'']"]
    connect_device_outcomes [of
      "\<lambda>d. Inr \<lparr>enable_outcome = None,
                send_command_outcome = (\<lambda>c. Inr (py ''R1#'')),
                send_config_set_outcome = (\<lambda>cs. Inr (py ''R1#''))\<rparr>"
      "[py ''host'' \<mapsto> py ''10.0.0.1'']"]
  by (simp add: py_def str_get_def)

lemma connect_device_map_id:
  "map (\<lambda>ev. if ev = SendConfigSetCall commands then SendCommandCall c else ev)
       (snd (connect_device ConnectHandler device)) =
   snd (connect_device ConnectHandler device)"
  by (auto simp: connect_device_def split: sum.splits option.splits)

lemma lifecycle_same:
  "snd (get_interface_brief ConnectHandler device) =
     map (\<lambda>ev. if ev = SendConfigSetCall commands
                then SendCommandCall (py ''show ip interface brief'') else ev)
         (snd (send_config ConnectHandler device commands))"
proof (cases "connect_device ConnectHandler device")
  case (Pair r tr)
  then have "map (\<lambda>ev. if ev = SendConfigSetCall commands
                then SendCommandCall (py ''show ip interface brief'') else ev) tr = tr"
    using connect_device_map_id [of commands "py ''show ip interface brief''" ConnectHandler device]
    by simp
  with Pair show ?thesis
    by (cases r) (simp_all add: get_interface_brief_def send_config_def)
qed

text \<open>
  C9. \<open>get_interface_brief\<close> makes the calls of \<open>send_config\<close> with the one
  \<open>send_config_set\<close> replaced by \<open>send_command("show ip interface brief")\<close>: it
  opens its own session; when that fails it returns its error text and what
  \<open>connect_device\<close> did; when it succeeds it sends this one command, disconnects
  afterwards whether the send returned or raised, and returns the output or the text
  \<open>Error retrieving interface brief: <message>\<close>. No other command is ever sent.
\<close>

theorem get_interface_brief_lifecycle:
  "snd (get_interface_brief ConnectHandler device) =
     map (\<lambda>ev. if ev = SendConfigSetCall commands
                then SendCommandCall (py ''show ip interface brief'') else ev)
         (snd (send_config ConnectHandler device commands)) \<and>
   (fst (connect_device ConnectHandler device) = None \<longrightarrow>
      get_interface_brief ConnectHandler device =
        (py ''Connection failed; cannot retrieve interface brief.'',
         snd (connect_device ConnectHandler device))) \<and>
   (\<forall>conn. fst (connect_device ConnectHandler device) = Some conn \<longrightarrow>
      snd (get_interface_brief ConnectHandler device) =
        [ConnectHandlerCall device, EnableCall,
         SendCommandCall (py ''show ip interface brief''), DisconnectCall] \<and>
      (\<forall>out. send_command_outcome conn (py ''show ip interface brief'') = Inr out \<longrightarrow>
         fst (get_interface_brief ConnectHandler device) = out) \<and>
      (\<forall>e. send_command_outcome conn (py ''show ip interface brief'') = Inl e \<longrightarrow>
         fst (get_interface_brief ConnectHandler device) =
           py ''Error retrieving interface brief: '' @ str_exn e)) \<and>
   (\<forall>ev\<in>set (snd (get_interface_brief ConnectHandler device)).
      (\<forall>c. ev = SendCommandCall c \<longrightarrow> c = py ''show ip interface brief'') \<and>
      (\<forall>cs. ev \<noteq> SendConfigSetCall cs))"
proof (intro conjI allI impI ballI)
  show "snd (get_interface_brief ConnectHandler device) =
     map (\<lambda>ev. if ev = SendConfigSetCall commands
                then SendCommandCall (py ''show ip interface brief'') else ev)
         (snd (send_config ConnectHandler device commands))"
    by (rule lifecycle_same)
next
  assume "fst (connect_device ConnectHandler device) = None"
  then show "get_interface_brief ConnectHandler device =
        (py ''Connection failed; cannot retrieve interface brief.'',
         snd (connect_device ConnectHandler device))"
    by (cases "connect_device ConnectHandler device") (simp add: get_interface_brief_def)
next
  fix conn
  assume h: "fst (connect_device ConnectHandler device) = Some conn"
  note t = connect_device_Some_trace [OF h]
  show "snd (get_interface_brief ConnectHandler device) =
        [ConnectHandlerCall device, EnableCall,
         SendCommandCall (py ''show ip interface brief''), DisconnectCall]"
    using t by (simp add: get_interface_brief_def)
  {
    fix out
    assume "send_command_outcome conn (py ''show ip interface brief'') = Inr out"
    then show "fst (get_interface_brief ConnectHandler device) = out"
      using t by (simp add: get_interface_brief_def)
  }
  {
    fix e
    assume "send_command_outcome conn (py ''show ip interface brief'') = Inl e"
    then show "fst (get_interface_brief ConnectHandler device) =
           py ''Error retrieving interface brief: '' @ str_exn e"
      using t by (simp add: get_interface_brief_def)
  }
next
  fix ev c
  assume "ev \<in> set (snd (get_interface_brief ConnectHandler device))"
    and "ev = SendCommandCall c"
  then show "c = py ''show ip interface brief''"
    using connect_device_no_send [of ev ConnectHandler device]
    by (cases "connect_device ConnectHandler device")
       (auto simp: get_interface_brief_def split: option.splits)
next
  fix ev cs
  assume "ev \<in> set (snd (get_interface_brief ConnectHandler device))"
  then show "ev \<noteq> SendConfigSetCall cs"
    using connect_device_no_send [of ev ConnectHandler device]
    by (cases "connect_device ConnectHandler device")
       (auto simp: get_interface_brief_def split: option.splits)
qed

text \<open>
  A device that answers, and one that cannot be reached, as instances.
\<close>

theorem get_interface_brief_lifecycle_witness:
  "get_interface_brief
     (\<lambda>d. Inr \<lparr>enable_outcome = None,
                send_command_outcome = (\<lambda>c. Inr (py ''Interface IP-Address OK? Method Status Protocol'')),
                send_config_set_outcome = (\<lambda>cs. Inr (py ''R1#''))\<rparr>)
     [py ''host'' \<mapsto> py ''10.0.0.1''] =
   (py ''Interface IP-Address OK? Method Status Protocol'',
    [ConnectHandlerCall [py ''host'' \<mapsto> py ''10.0.0.1''], EnableCall,
     SendCommandCall (py ''show ip interface brief''), DisconnectCall]) \<and>
   get_interface_brief (\<lambda>d. Inl (Exception (py ''TCP connection to device failed'')))
     [py ''host'' \<mapsto> py ''10.0.0.1''] =
   (py ''Connection failed; cannot retrieve interface brief.'',
    [ConnectHandlerCall [py ''host'' \<mapsto> py ''10.0.0.1''],
     PrintCall (py ''Error connecting to device 10.0.0.1: TCP connection to device failed'')])"
proof -
  let ?out = "py ''Interface IP-Address OK? Method Status Protocol''"
  let ?conn = "\<lparr>enable_outcome = None,
                send_command_outcome = (\<lambda>c. Inr ?out),
                send_config_set_outcome = (\<lambda>cs. Inr (py ''R1#''))\<rparr>"
  let ?dev = "[py ''host'' \<mapsto> py ''10.0.0.1'']"
  let ?down = "\<lambda>d::pystr \<rightharpoonup> pystr.
     (Inl (Exception (py ''TCP connection to device failed'')) :: py_exn + connection)"
  have a: "fst (connect_device (\<lambda>d. Inr ?conn) ?dev) = Some ?conn"
    by (simp add: connect_device_def)
  have o: "send_command_outcome ?conn (py ''show ip interface brief'') = Inr ?out"
    by simp
  from get_interface_brief_lifecycle [of "\<lambda>d. Inr ?conn" ?dev "[]"] a o
  have s: "snd (get_interface_brief (\<lambda>d. Inr ?conn) ?dev) =
        [ConnectHandlerCall ?dev, EnableCall,
         SendCommandCall (py ''show ip interface brief''), DisconnectCall]"
    and f: "fst (get_interface_brief (\<lambda>d. Inr ?conn) ?dev) = ?out"
    by blast+
  have up: "get_interface_brief (\<lambda>d. Inr ?conn) ?dev =
     (?out, [ConnectHandlerCall ?dev, EnableCall,
         SendCommandCall (py ''show ip interface brief''), DisconnectCall])"
    using s f by (simp only: prod_eq_iff fst_conv snd_conv simp_thms)
  have b: "connect_device ?down ?dev =
    (None, [ConnectHandlerCall ?dev,
     PrintCall (py ''Error connecting to device 10.0.0.1: TCP connection to device failed'')])"
    by (simp add: connect_device_def str_get_def py_def)
  then have n: "fst (connect_device ?down ?dev) = None" by simp
  from get_interface_brief_lifecycle [of ?down ?dev "[]"] n
  have "get_interface_brief ?down ?dev =
        (py ''Connection failed; cannot retrieve interface brief.'',
         snd (connect_device ?down ?dev))"
    by blast
  then have down: "get_interface_brief ?down ?dev =
        (py ''Connection failed; cannot retrieve interface brief.'',
         [ConnectHandlerCall ?dev,
     PrintCall (py ''Error connecting to device 10.0.0.1: TCP connection to device failed'')])"
    by (simp only: b snd_conv)
  from up down show ?thesis by (rule conjI)
qed

section \<open>The starter file against the task-4 file\<close>





lemma cli_main_top_command:
  assumes "read_inventory (py ''inventory.csv'') = Inr inventory"
    and "get_device_data inventory device_name = Inr (Some device_data)"
    and "device_data \<noteq> Map.empty"
    and "get_conn_info_top device_data = Inr conn_info"
    and "option_text command \<noteq> []"
  shows "cli_main_top read_inventory get_device_data device_name command config =
           [EchoCall (py ''Failed to connect to '' @ device_name)]"
  using assms by (simp add: cli_main_top_def connect_device_top_def)







end
